theory Spec2Isabelle
  imports Main
begin

section \<open>The Agent adapter of provider-harness\<close>

text \<open>
  A shallow embedding of \<^verbatim>\<open>internal/controller/agent/agent.go\<close>: the connector
  (\<^verbatim>\<open>Connect\<close>) and the external client (\<^verbatim>\<open>Observe\<close>, \<^verbatim>\<open>Create\<close>,
  \<^verbatim>\<open>Update\<close>, \<^verbatim>\<open>Delete\<close>).

  The adapter is glue code around collaborators it does not implement: the usage tracker,
  the Kubernetes client, the credential extractor, the service constructor, the process
  environment and the two remote calls of the Harness SDK. Each collaborator is a
  parameter of the model: a function from the arguments the code passes to the values the
  code receives. What the code does around them is modelled in full:
  \<^item> a Go pointer is an \<open>option\<close> (\<open>None\<close> is \<^verbatim>\<open>nil\<close>);
  \<^item> a Go \<^verbatim>\<open>error\<close> result is an \<open>error option\<close> (\<open>None\<close> is \<^verbatim>\<open>nil\<close>);
  \<^item> every operation of the external client returns the managed resource as the code
    leaves it, the list of effects it performed in order, and how it ended: it returned,
    it ended the process (\<^verbatim>\<open>log.Fatal\<close>, \<^verbatim>\<open>log.Fatalln\<close>), or it panicked on a nil
    pointer. \<^verbatim>\<open>Connect\<close>, which writes nothing to the resource, returns its effects and
    how it ended.
\<close>

subsection \<open>Errors\<close>

text \<open>
  \<^verbatim>\<open>errors.New\<close> and \<^verbatim>\<open>errors.Wrap\<close> of \<^verbatim>\<open>github.com/pkg/errors\<close>, and the
  errors the collaborators hand back, which the adapter never inspects.
\<close>

datatype error =
    ErrorsNew string
  | ErrorsWrap error string
  | Collaborator string

definition errNotAgent :: string where
  "errNotAgent = ''managed resource is not a Agent custom resource''"

definition errTrackPCUsage :: string where
  "errTrackPCUsage = ''cannot track ProviderConfig usage''"

definition errGetPC :: string where
  "errGetPC = ''cannot get ProviderConfig''"

definition errGetCreds :: string where
  "errGetCreds = ''cannot get credentials''"

definition errNewClient :: string where
  "errNewClient = ''cannot create new Service''"

subsection \<open>The Agent custom resource\<close>

text \<open>
  \<^verbatim>\<open>agent.go\<close> compares the identifier, account, project, organisation and description
  fields with \<^verbatim>\<open>nil\<close> and dereferences them, so they are pointers to strings.
\<close>

record AgentParameters =
  AccountIdentifier :: "string option"
  ProjectIdentifier :: "string option"
  OrgIdentifier :: "string option"
  Description :: "string option"
  Tags :: "string \<rightharpoonup> string"
  Identifier :: "string option"

record AgentObservation =
  State :: string

record Reference =
  Name :: string

text \<open>Of the embedded \<^verbatim>\<open>xpv1.ResourceSpec\<close> the adapter reads the provider configuration
  reference only.\<close>

record AgentSpec =
  ProviderConfigReference :: "Reference option"
  ForProvider :: AgentParameters

record Condition =
  Type :: string
  Status :: string
  Reason :: string

text \<open>The embedded \<^verbatim>\<open>xpv1.ResourceStatus\<close> holds the conditions.\<close>

record AgentStatus =
  Conditions :: "Condition list"
  AtProvider :: AgentObservation

record ObjectMeta =
  Name :: string

record Agent =
  ObjectMeta :: ObjectMeta
  Spec :: AgentSpec
  Status :: AgentStatus

text \<open>
  \<^verbatim>\<open>resource.Managed\<close> is an interface: the value behind it is an Agent, or a managed
  resource of another kind, for which the type assertion to an Agent fails. The string
  names that other kind.
\<close>

datatype Managed = AgentMg Agent | OtherMg string

text \<open>\<^verbatim>\<open>xpv1.Available()\<close>; the transition time, which the comparison of conditions
  ignores, is left out.\<close>

definition Available :: Condition where
  "Available = \<lparr>Type = ''Ready'', Status = ''True'', Reason = ''Available''\<rparr>"

text \<open>
  \<^verbatim>\<open>ConditionedStatus.SetConditions\<close> of crossplane-runtime, for one condition: every
  condition of the same type is kept when it equals the new one and overwritten by it
  otherwise; without a condition of that type the new one is appended.
\<close>

fun overwriteCondition :: "Condition \<Rightarrow> Condition list \<Rightarrow> Condition list" where
  "overwriteCondition new [] = []"
| "overwriteCondition new (existing # rest) =
     (if Type existing = Type new
      then (if existing = new then existing else new)
      else existing) # overwriteCondition new rest"

definition SetConditions :: "AgentStatus \<Rightarrow> Condition \<Rightarrow> AgentStatus" where
  "SetConditions s new =
     (if list_ex (\<lambda>existing. Type existing = Type new) (Conditions s)
      then s\<lparr>Conditions := overwriteCondition new (Conditions s)\<rparr>
      else s\<lparr>Conditions := Conditions s @ [new]\<rparr>)"

subsection \<open>The remote API\<close>

datatype Servicev1AppProjectMapping = EmptyAppProjectMapping

record V1AgentMetadata =
  Namespace :: string
  HighAvailability :: bool
  MappedProjects :: "Servicev1AppProjectMapping option"

record V1AgentComponentHealth =
  Status :: "string option"

record V1AgentHealth =
  HarnessGitopsAgent :: "V1AgentComponentHealth option"

text \<open>The fields of \<^verbatim>\<open>nextgen.V1Agent\<close> that the adapter writes or reads, and the tags,
  which it leaves unset.\<close>

record V1Agent =
  AccountIdentifier :: string
  ProjectIdentifier :: string
  OrgIdentifier :: string
  Identifier :: string
  Name :: string
  Metadata :: "V1AgentMetadata option"
  Description :: string
  Tags :: "string \<rightharpoonup> string"
  Health :: "V1AgentHealth option"

definition HEALTHY_Servicev1HealthStatus :: string where
  "HEALTHY_Servicev1HealthStatus = ''HEALTHY''"

text \<open>An HTTP response: its status code, and what closing its body returns.\<close>

record Response =
  StatusCode :: int
  Body_Close :: "error option"

type_synonym reply = "V1Agent \<times> Response option \<times> error option"

text \<open>
  The two calls of the SDK's \<^verbatim>\<open>AgentApi\<close> that the adapter makes. The first argument is
  the API key the adapter puts into the context.
\<close>

record HarnessService =
  AgentServiceForServerGet :: "string \<Rightarrow> string \<Rightarrow> string \<Rightarrow> reply"
  AgentServiceForServerCreate :: "string \<Rightarrow> V1Agent \<Rightarrow> reply"

record external =
  service :: HarnessService

subsection \<open>The provider configuration and the connector\<close>

record SecretKeySelector =
  Namespace :: string
  Name :: string
  Key :: string

record ProviderCredentials =
  Source :: string
  SecretRef :: "SecretKeySelector option"

record ProviderConfigSpec =
  Credentials :: ProviderCredentials

record ProviderConfig =
  Spec :: ProviderConfigSpec

text \<open>
  The connector's fields: \<open>kube\<close> is \<^verbatim>\<open>kube.Get\<close> of a provider configuration by name,
  \<open>usage\<close> is \<^verbatim>\<open>usage.Track\<close>, \<open>newServiceFn\<close> the service constructor.
\<close>

record connector =
  kube :: "string \<Rightarrow> error + ProviderConfig"
  usage :: "Managed \<Rightarrow> error option"
  newServiceFn :: "string \<Rightarrow> error + HarnessService"

subsection \<open>Effects and outcomes\<close>

datatype effect =
    UsageTrack Managed
  | KubeGet string
  | CommonCredentialExtractor string "SecretKeySelector option"
  | NewServiceFn string
  | Getenv string
  | RemoteGet string string string
  | RemoteCreate string V1Agent
  | BodyClose
  | LogPrintf string
  | LogFatalln string
  | LogFatal error
  | FmtPrintf Agent

datatype 'a outcome = Returned 'a | Exited | Panicked

type_synonym ConnectionDetails = "string \<rightharpoonup> string"

record ExternalObservation =
  ResourceExists :: bool
  ResourceUpToDate :: bool
  ResourceLateInitialized :: bool
  ConnectionDetails :: "ConnectionDetails option"

record ExternalCreation =
  ConnectionDetails :: "ConnectionDetails option"

record ExternalUpdate =
  ConnectionDetails :: "ConnectionDetails option"

text \<open>The composite literal \<^verbatim>\<open>managed.ExternalObservation{...}\<close>: fields not named are zero.\<close>

definition ExternalObservation_lit :: "bool \<Rightarrow> bool \<Rightarrow> ExternalObservation" where
  "ExternalObservation_lit exists upToDate =
     \<lparr>ResourceExists = exists, ResourceUpToDate = upToDate,
      ResourceLateInitialized = False, ExternalObservation.ConnectionDetails = None\<rparr>"

subsection \<open>Connect\<close>

text \<open>
  The result is the pair the Go function returns: the external client (\<open>None\<close> is
  \<^verbatim>\<open>nil\<close>) and the error. The credential extractor is a function of crossplane-runtime,
  taken as a parameter.
\<close>

definition Connect ::
  "connector \<Rightarrow> (string \<Rightarrow> SecretKeySelector option \<Rightarrow> error + string) \<Rightarrow> Managed
     \<Rightarrow> effect list \<times> (external option \<times> error option) outcome" where
  "Connect c extractor mg =
     (case mg of
        OtherMg kind \<Rightarrow> ([], Returned (None, Some (ErrorsNew errNotAgent)))
      | AgentMg cr \<Rightarrow>
          (case usage c mg of
             Some err \<Rightarrow> ([UsageTrack mg], Returned (None, Some (ErrorsWrap err errTrackPCUsage)))
           | None \<Rightarrow>
               (case ProviderConfigReference (Agent.Spec cr) of
                  None \<Rightarrow> ([UsageTrack mg], Panicked)
                | Some ref \<Rightarrow>
                    (case kube c (Reference.Name ref) of
                       Inl err \<Rightarrow>
                         ([UsageTrack mg, KubeGet (Reference.Name ref)],
                          Returned (None, Some (ErrorsWrap err errGetPC)))
                     | Inr pc \<Rightarrow>
                         (let cd = Credentials (ProviderConfig.Spec pc);
                              steps = [UsageTrack mg, KubeGet (Reference.Name ref),
                                      CommonCredentialExtractor (Source cd) (SecretRef cd)]
                          in case extractor (Source cd) (SecretRef cd) of
                               Inl err \<Rightarrow> (steps, Returned (None, Some (ErrorsWrap err errGetCreds)))
                             | Inr data \<Rightarrow>
                                 (case newServiceFn c data of
                                    Inl err \<Rightarrow>
                                      (steps @ [NewServiceFn data],
                                       Returned (None, Some (ErrorsWrap err errNewClient)))
                                  | Inr svc \<Rightarrow>
                                      (steps @ [NewServiceFn data],
                                       Returned (Some \<lparr>service = svc\<rparr>, None))))))))"

subsection \<open>The external client\<close>

text \<open>A local that starts as the empty string and takes the pointer's value when the
  pointer is not nil.\<close>

definition orEmpty :: "string option \<Rightarrow> string" where
  "orEmpty p = (case p of None \<Rightarrow> '''' | Some s \<Rightarrow> s)"

text \<open>The dereference of \<^verbatim>\<open>agent.Health.HarnessGitopsAgent.Status\<close>: \<open>None\<close> where a
  pointer on the path is nil, which panics.\<close>

definition healthStatus :: "V1Agent \<Rightarrow> string option" where
  "healthStatus agent =
     (case Health agent of
        None \<Rightarrow> None
      | Some h \<Rightarrow>
          (case HarnessGitopsAgent h of
             None \<Rightarrow> None
           | Some g \<Rightarrow> V1AgentComponentHealth.Status g))"

text \<open>
  The deferred function of \<^verbatim>\<open>Observe\<close> and \<^verbatim>\<open>Create\<close>. It runs when the body has
  returned or panicked: with a response, it closes the body, and ends the process when
  closing fails.
\<close>

definition deferred :: "Response option \<Rightarrow> 'a outcome \<Rightarrow> effect list \<times> 'a outcome" where
  "deferred response result =
     (case response of
        None \<Rightarrow> ([], result)
      | Some r \<Rightarrow>
          (case Body_Close r of
             None \<Rightarrow> ([BodyClose], result)
           | Some err \<Rightarrow> ([BodyClose, LogFatal err], Exited)))"

text \<open>
  \<^verbatim>\<open>Observe\<close>. The status code it compares with is \<^verbatim>\<open>http.StatusNotFound\<close>, 404. The
  deferred function assigns what closing returns to the local \<^verbatim>\<open>err\<close>, which is not a
  result of the function: the values of the return statement stand.
\<close>

definition Observe ::
  "external \<Rightarrow> (string \<Rightarrow> string) \<Rightarrow> Managed
     \<Rightarrow> Managed \<times> effect list \<times> (ExternalObservation \<times> error option) outcome" where
  "Observe c getenv mg =
     (case mg of
        OtherMg kind \<Rightarrow>
          (mg, [], Returned (ExternalObservation_lit False False, Some (ErrorsNew errNotAgent)))
      | AgentMg cr \<Rightarrow>
          (let identifier = orEmpty (AgentParameters.Identifier (ForProvider (Agent.Spec cr)))
           in case AgentParameters.AccountIdentifier (ForProvider (Agent.Spec cr)) of
                None \<Rightarrow> (mg, [LogFatalln ''AccountIndentifier is required''], Exited)
              | Some accountIdentifier \<Rightarrow>
                  (let key = getenv ''HARNESS_API_KEY'';
                       calls = [Getenv ''HARNESS_API_KEY'',
                                RemoteGet key identifier accountIdentifier]
                   in case AgentServiceForServerGet (service c) key identifier accountIdentifier of
                        (agent, response, err) \<Rightarrow>
                          (case (if err \<noteq> None \<or>
                                    (case response of
                                       None \<Rightarrow> False
                                     | Some r \<Rightarrow> StatusCode r = 404)
                                 then (cr, Returned (ExternalObservation_lit False False, None))
                                 else
                                   (case healthStatus agent of
                                      None \<Rightarrow> (cr, Panicked)
                                    | Some status \<Rightarrow>
                                        (if status = HEALTHY_Servicev1HealthStatus
                                         then cr\<lparr>Agent.Status :=
                                                   SetConditions (Agent.Status cr) Available\<rparr>
                                         else cr,
                                         Returned (ExternalObservation_lit True True, None)))) of
                             (cr', result) \<Rightarrow>
                               (case deferred response result of
                                  (closing, final) \<Rightarrow> (AgentMg cr', calls @ closing, final))))))"

text \<open>\<^verbatim>\<open>log.Printf("%s\n", x)\<close> inside \<^verbatim>\<open>if p != nil\<close>.\<close>

definition logIfSet :: "string option \<Rightarrow> effect list" where
  "logIfSet p = (case p of None \<Rightarrow> [] | Some s \<Rightarrow> [LogPrintf s])"

text \<open>
  The \<^verbatim>\<open>nextgen.V1Agent\<close> literal that \<^verbatim>\<open>Create\<close> passes to the remote call, with the
  local variables the code computes before it. The literal sets no tags and no health
  (the lines are commented out in the source), and its identifier is the empty string.
\<close>

definition createPayload :: "Agent \<Rightarrow> V1Agent" where
  "createPayload cr =
     (let p = ForProvider (Agent.Spec cr);
          accountIdentifier = orEmpty (AgentParameters.AccountIdentifier p);
          projectIndentifier = orEmpty (AgentParameters.ProjectIdentifier p);
          orgIdentifier = orEmpty (AgentParameters.OrgIdentifier p);
          description = orEmpty (AgentParameters.Description p);
          name = ObjectMeta.Name (ObjectMeta cr)
      in \<lparr>V1Agent.AccountIdentifier = accountIdentifier,
          V1Agent.ProjectIdentifier = projectIndentifier,
          V1Agent.OrgIdentifier = orgIdentifier,
          V1Agent.Identifier = '''',
          V1Agent.Name = name,
          Metadata = Some \<lparr>V1AgentMetadata.Namespace = ''harness'',
                           HighAvailability = True,
                           MappedProjects = Some EmptyAppProjectMapping\<rparr>,
          V1Agent.Description = description,
          V1Agent.Tags = Map.empty,
          Health = None\<rparr>)"

definition Create ::
  "external \<Rightarrow> (string \<Rightarrow> string) \<Rightarrow> Managed
     \<Rightarrow> Managed \<times> effect list \<times> (ExternalCreation \<times> error option) outcome" where
  "Create c getenv mg =
     (case mg of
        OtherMg kind \<Rightarrow>
          (mg, [], Returned (\<lparr>ExternalCreation.ConnectionDetails = None\<rparr>,
                             Some (ErrorsNew errNotAgent)))
      | AgentMg cr \<Rightarrow>
          (let p = ForProvider (Agent.Spec cr);
               logs = logIfSet (AgentParameters.AccountIdentifier p)
                    @ logIfSet (AgentParameters.ProjectIdentifier p)
                    @ logIfSet (AgentParameters.OrgIdentifier p)
                    @ logIfSet (AgentParameters.Description p);
               key = getenv ''HARNESS_API_KEY'';
               payload = createPayload cr;
               calls = logs @ [Getenv ''HARNESS_API_KEY'', RemoteCreate key payload]
           in case AgentServiceForServerCreate (service c) key payload of
                (agent, response, err) \<Rightarrow>
                  (case (case err of
                           Some e \<Rightarrow>
                             (cr, Returned (\<lparr>ExternalCreation.ConnectionDetails = None\<rparr>, Some e))
                         | None \<Rightarrow>
                             (case healthStatus agent of
                                None \<Rightarrow> (cr, Panicked)
                              | Some status \<Rightarrow>
                                  (cr\<lparr>Agent.Status :=
                                        (Agent.Status cr)\<lparr>AtProvider := \<lparr>State = status\<rparr>\<rparr>\<rparr>,
                                   Returned
                                     (\<lparr>ExternalCreation.ConnectionDetails = Some Map.empty\<rparr>,
                                      None)))) of
                     (cr', result) \<Rightarrow>
                       (case deferred response result of
                          (closing, final) \<Rightarrow> (AgentMg cr', calls @ closing, final)))))"

definition Update ::
  "external \<Rightarrow> Managed \<Rightarrow> Managed \<times> effect list \<times> (ExternalUpdate \<times> error option) outcome" where
  "Update c mg = (mg, [], Returned (\<lparr>ExternalUpdate.ConnectionDetails = None\<rparr>, None))"

definition Delete ::
  "external \<Rightarrow> Managed \<Rightarrow> Managed \<times> effect list \<times> (error option) outcome" where
  "Delete c mg =
     (case mg of
        OtherMg kind \<Rightarrow> (mg, [], Returned (Some (ErrorsNew errNotAgent)))
      | AgentMg cr \<Rightarrow> (mg, [FmtPrintf cr], Returned None))"

subsection \<open>Reading a run\<close>

text \<open>The three components of what an operation of the external client yields.\<close>

definition resourceAfter :: "Managed \<times> effect list \<times> 'a outcome \<Rightarrow> Managed" where
  "resourceAfter run = fst run"

definition effectsOf :: "Managed \<times> effect list \<times> 'a outcome \<Rightarrow> effect list" where
  "effectsOf run = fst (snd run)"

definition outcomeOf :: "Managed \<times> effect list \<times> 'a outcome \<Rightarrow> 'a outcome" where
  "outcomeOf run = snd (snd run)"

text \<open>The effects that are calls of the remote API.\<close>

fun isRemoteCall :: "effect \<Rightarrow> bool" where
  "isRemoteCall (RemoteGet key identifier accountIdentifier) = True"
| "isRemoteCall (RemoteCreate key payload) = True"
| "isRemoteCall other = False"

text \<open>
  An error with a contextual message, as the adapter builds it: the type-mismatch error,
  or a cause wrapped with one of the connector's four messages.
\<close>

fun contextual :: "error \<Rightarrow> bool" where
  "contextual (ErrorsNew msg) = (msg = errNotAgent)"
| "contextual (ErrorsWrap cause msg) =
     (msg = errTrackPCUsage \<or> msg = errGetPC \<or> msg = errGetCreds \<or> msg = errNewClient)"
| "contextual (Collaborator msg) = False"

subsection \<open>Test doubles\<close>

text \<open>The Agent of \<^verbatim>\<open>examples/harness/gitops-agent.yaml\<close>, which sets no identifier.\<close>

definition exampleAgent :: Agent where
  "exampleAgent =
     \<lparr>ObjectMeta = \<lparr>ObjectMeta.Name = ''example''\<rparr>,
      Agent.Spec =
        \<lparr>ProviderConfigReference = Some \<lparr>Reference.Name = ''example''\<rparr>,
         ForProvider =
           \<lparr>AgentParameters.AccountIdentifier = Some ''nYY7inrwTrqqa3r1a_-krg'',
            AgentParameters.ProjectIdentifier = Some ''ahpoc'',
            AgentParameters.OrgIdentifier = Some ''Innovation'',
            AgentParameters.Description = Some ''this is a test'',
            AgentParameters.Tags = Map.empty,
            AgentParameters.Identifier = None\<rparr>\<rparr>,
      Agent.Status = \<lparr>Conditions = [], AtProvider = \<lparr>State = ''''\<rparr>\<rparr>\<rparr>"

text \<open>An Agent with every field of its parameters unset.\<close>

definition emptyAgent :: Agent where
  "emptyAgent =
     \<lparr>ObjectMeta = \<lparr>ObjectMeta.Name = ''empty''\<rparr>,
      Agent.Spec =
        \<lparr>ProviderConfigReference = Some \<lparr>Reference.Name = ''example''\<rparr>,
         ForProvider =
           \<lparr>AgentParameters.AccountIdentifier = None,
            AgentParameters.ProjectIdentifier = None,
            AgentParameters.OrgIdentifier = None,
            AgentParameters.Description = None,
            AgentParameters.Tags = Map.empty,
            AgentParameters.Identifier = None\<rparr>\<rparr>,
      Agent.Status = \<lparr>Conditions = [], AtProvider = \<lparr>State = ''''\<rparr>\<rparr>\<rparr>"


definition exampleEnv :: "string \<Rightarrow> string" where
  "exampleEnv var = (if var = ''HARNESS_API_KEY'' then ''pat.example'' else '''')"

text \<open>The zero value of \<^verbatim>\<open>nextgen.V1Agent\<close>, and an agent that reports a health status.\<close>

definition zeroAgent :: V1Agent where
  "zeroAgent =
     \<lparr>V1Agent.AccountIdentifier = '''', V1Agent.ProjectIdentifier = '''',
      V1Agent.OrgIdentifier = '''', V1Agent.Identifier = '''', V1Agent.Name = '''',
      Metadata = None, V1Agent.Description = '''', V1Agent.Tags = Map.empty, Health = None\<rparr>"

definition agentWithHealth :: "string \<Rightarrow> V1Agent" where
  "agentWithHealth status =
     zeroAgent\<lparr>Health :=
       Some \<lparr>HarnessGitopsAgent = Some \<lparr>V1AgentComponentHealth.Status = Some status\<rparr>\<rparr>\<rparr>"

text \<open>A client whose service answers every call with the same reply.\<close>

definition answering :: "reply \<Rightarrow> external" where
  "answering r =
     \<lparr>service = \<lparr>AgentServiceForServerGet = (\<lambda>key identifier accountIdentifier. r),
                  AgentServiceForServerCreate = (\<lambda>key payload. r)\<rparr>\<rparr>"

definition closingCleanly :: "int \<Rightarrow> Response" where
  "closingCleanly code = \<lparr>StatusCode = code, Body_Close = None\<rparr>"

definition failingToClose :: "int \<Rightarrow> Response" where
  "failingToClose code =
     \<lparr>StatusCode = code, Body_Close = Some (Collaborator ''close: connection reset'')\<rparr>"

text \<open>
  A connector whose tracker and Kubernetes client succeed, with the provider configuration
  of the example, and a credential extractor that does not find the secret.
\<close>

definition exampleProviderConfig :: ProviderConfig where
  "exampleProviderConfig =
     \<lparr>ProviderConfig.Spec =
        \<lparr>Credentials =
           \<lparr>Source = ''Secret'',
            SecretRef = Some \<lparr>SecretKeySelector.Namespace = ''crossplane-system'',
                             SecretKeySelector.Name = ''example-provider-secret'',
                             Key = ''credentials''\<rparr>\<rparr>\<rparr>\<rparr>"

definition exampleConnector :: connector where
  "exampleConnector =
     \<lparr>kube = (\<lambda>name. Inr exampleProviderConfig),
      usage = (\<lambda>mg. None),
      newServiceFn = (\<lambda>creds. Inr (service (answering (zeroAgent, None, None))))\<rparr>"

definition secretMissing :: "string \<Rightarrow> SecretKeySelector option \<Rightarrow> error + string" where
  "secretMissing source selector = Inl (Collaborator ''secret not found'')"

section \<open>Properties of the adapter\<close>

subsection \<open>Auxiliary facts\<close>

lemmas double_defs = answering_def exampleAgent_def emptyAgent_def exampleEnv_def zeroAgent_def
  agentWithHealth_def closingCleanly_def failingToClose_def exampleProviderConfig_def
  exampleConnector_def secretMissing_def

lemma overwriteCondition_member:
  "list_ex (\<lambda>existing. Type existing = Type new) cs \<Longrightarrow> new \<in> set (overwriteCondition new cs)"
  by (induction cs) auto

lemma SetConditions_member: "new \<in> set (Conditions (SetConditions s new))"
  by (simp add: SetConditions_def overwriteCondition_member)



subsection \<open>Observe\<close>

text \<open>
  C1, as the code has it. Let the account identifier be set, so that Observe makes the
  remote lookup, and let the lookup return an error or a response with status 404. If
  there is no response, or closing the body of the response does not fail, Observe
  returns an observation with ResourceExists = false and a nil error. (When closing the
  body fails, the deferred function ends the process: see the counterexample.)
\<close>

theorem Observe_not_found:
  assumes "AgentParameters.AccountIdentifier (ForProvider (Agent.Spec cr)) = Some accountIdentifier"
    and "AgentServiceForServerGet (service c) (getenv ''HARNESS_API_KEY'')
           (orEmpty (AgentParameters.Identifier (ForProvider (Agent.Spec cr)))) accountIdentifier
         = (agent, response, err)"
    and "err \<noteq> None \<or> (\<exists>r. response = Some r \<and> StatusCode r = 404)"
    and "\<forall>r. response = Some r \<longrightarrow> Body_Close r = None"
  shows "outcomeOf (Observe c getenv (AgentMg cr)) =
           Returned (\<lparr>ResourceExists = False, ResourceUpToDate = False,
                      ResourceLateInitialized = False,
                      ExternalObservation.ConnectionDetails = None\<rparr>, None)"
  using assms
  by (auto simp: Observe_def outcomeOf_def ExternalObservation_lit_def deferred_def Let_def
           split: option.splits)

text \<open>The lookup answers 404 and the body closes: Observe reports that the resource does
  not exist, with no error.\<close>

theorem Observe_not_found_witness:
  "outcomeOf (Observe (answering (zeroAgent, Some (closingCleanly 404), None))
                exampleEnv (AgentMg exampleAgent)) =
     Returned (\<lparr>ResourceExists = False, ResourceUpToDate = False,
                ResourceLateInitialized = False,
                ExternalObservation.ConnectionDetails = None\<rparr>, None)"
  using Observe_not_found [of exampleAgent "''nYY7inrwTrqqa3r1a_-krg''"
      "answering (zeroAgent, Some (closingCleanly 404), None)" exampleEnv
      zeroAgent "Some (closingCleanly 404)" None]
  by (simp add: answering_def exampleAgent_def closingCleanly_def)

text \<open>The lookup answers 404 and closing the body fails: Observe does not return, the
  process ends in \<^verbatim>\<open>log.Fatal\<close>.\<close>

theorem Observe_not_found_counterexample:
  "AgentServiceForServerGet (service (answering (zeroAgent, Some (failingToClose 404), None)))
     (exampleEnv ''HARNESS_API_KEY'') '''' ''nYY7inrwTrqqa3r1a_-krg''
     = (zeroAgent, Some (failingToClose 404), None)
   \<and> StatusCode (failingToClose 404) = 404
   \<and> outcomeOf (Observe (answering (zeroAgent, Some (failingToClose 404), None))
                  exampleEnv (AgentMg exampleAgent)) = Exited"
  by (simp add: Observe_def outcomeOf_def deferred_def orEmpty_def Let_def answering_def
      exampleAgent_def failingToClose_def)

text \<open>
  C5. Let the account identifier be set, and let the remote lookup succeed: it returns no
  error and no response with status 404. If the health status of the agent it returns is
  the HEALTHY sentinel, the resource as Observe leaves it has the Available condition
  among the conditions of its status.
\<close>

theorem Observe_healthy_available:
  assumes "AgentParameters.AccountIdentifier (ForProvider (Agent.Spec cr)) = Some accountIdentifier"
    and "AgentServiceForServerGet (service c) (getenv ''HARNESS_API_KEY'')
           (orEmpty (AgentParameters.Identifier (ForProvider (Agent.Spec cr)))) accountIdentifier
         = (agent, response, None)"
    and "\<forall>r. response = Some r \<longrightarrow> StatusCode r \<noteq> 404"
    and "healthStatus agent = Some HEALTHY_Servicev1HealthStatus"
  shows "\<exists>cr'. resourceAfter (Observe c getenv (AgentMg cr)) = AgentMg cr'
           \<and> Available \<in> set (Conditions (Agent.Status cr'))"
  using assms
  by (auto simp: Observe_def resourceAfter_def Let_def SetConditions_member
           split: option.splits prod.splits)

theorem Observe_healthy_available_witness:
  "\<exists>cr'. resourceAfter (Observe (answering (agentWithHealth ''HEALTHY'', Some (closingCleanly 200), None))
                          exampleEnv (AgentMg exampleAgent)) = AgentMg cr'
         \<and> Available \<in> set (Conditions (Agent.Status cr'))"
  using Observe_healthy_available [of exampleAgent "''nYY7inrwTrqqa3r1a_-krg''"
      "answering (agentWithHealth ''HEALTHY'', Some (closingCleanly 200), None)" exampleEnv
      "agentWithHealth ''HEALTHY''" "Some (closingCleanly 200)"]
  by (simp add: double_defs healthStatus_def HEALTHY_Servicev1HealthStatus_def)

text \<open>
  C7. Whatever the managed resource and the remote reply, an observation that Observe
  returns with ResourceExists = true has ResourceUpToDate = true: Observe never asks for
  an update.
\<close>

theorem Observe_up_to_date:
  "outcomeOf (Observe c getenv mg) = Returned (obs, err) \<Longrightarrow> ResourceExists obs
     \<Longrightarrow> ResourceUpToDate obs"
  by (auto simp: Observe_def outcomeOf_def ExternalObservation_lit_def deferred_def Let_def
           split: option.splits Managed.splits prod.splits if_splits)

theorem Observe_up_to_date_witness:
  "outcomeOf (Observe (answering (agentWithHealth ''HEALTHY'', Some (closingCleanly 200), None))
                exampleEnv (AgentMg exampleAgent)) =
     Returned (ExternalObservation_lit True True, None)
   \<and> ResourceExists (ExternalObservation_lit True True)
   \<and> ResourceUpToDate (ExternalObservation_lit True True)"
proof -
  have run: "outcomeOf (Observe (answering (agentWithHealth ''HEALTHY'', Some (closingCleanly 200), None))
                exampleEnv (AgentMg exampleAgent)) =
     Returned (ExternalObservation_lit True True, None)"
    by (simp add: Observe_def outcomeOf_def deferred_def orEmpty_def Let_def double_defs
        healthStatus_def)
  have exists: "ResourceExists (ExternalObservation_lit True True)"
    by (simp add: ExternalObservation_lit_def)
  from Observe_up_to_date [OF run exists] run exists show ?thesis by simp
qed

subsection \<open>Create\<close>









text \<open>
  C6, as the code has it. For every Agent resource, if the remote create call returns an
  error, Create leaves the resource as it was, its State included; and if there is no
  response, or closing the body of the response does not fail, Create returns that very
  error, without a wrapping message, next to an empty creation result. (When closing the
  body fails, the deferred function ends the process: see the counterexample.)
\<close>

theorem Create_error_propagated:
  assumes "AgentServiceForServerCreate (service c) (getenv ''HARNESS_API_KEY'') (createPayload cr)
           = (agent, response, Some e)"
  shows "resourceAfter (Create c getenv (AgentMg cr)) = AgentMg cr
         \<and> ((\<forall>r. response = Some r \<longrightarrow> Body_Close r = None) \<longrightarrow>
              outcomeOf (Create c getenv (AgentMg cr)) =
                Returned (\<lparr>ExternalCreation.ConnectionDetails = None\<rparr>, Some e))"
  using assms
  by (auto simp: Create_def outcomeOf_def resourceAfter_def deferred_def Let_def
           split: option.splits prod.splits)

theorem Create_error_propagated_witness:
  "resourceAfter (Create (answering (zeroAgent, Some (closingCleanly 500),
                                     Some (Collaborator ''500 Internal Server Error'')))
                    exampleEnv (AgentMg exampleAgent)) = AgentMg exampleAgent
   \<and> outcomeOf (Create (answering (zeroAgent, Some (closingCleanly 500),
                                    Some (Collaborator ''500 Internal Server Error'')))
                  exampleEnv (AgentMg exampleAgent)) =
       Returned (\<lparr>ExternalCreation.ConnectionDetails = None\<rparr>,
                 Some (Collaborator ''500 Internal Server Error''))"
  using Create_error_propagated [of "answering (zeroAgent, Some (closingCleanly 500),
                                     Some (Collaborator ''500 Internal Server Error''))"
      exampleEnv exampleAgent zeroAgent "Some (closingCleanly 500)"
      "Collaborator ''500 Internal Server Error''"]
  by (simp add: answering_def closingCleanly_def)

text \<open>The create call returns an error with a response whose body fails to close: Create
  does not return the error, the process ends in \<^verbatim>\<open>log.Fatal\<close>.\<close>

theorem Create_error_counterexample:
  "AgentServiceForServerCreate
     (service (answering (zeroAgent, Some (failingToClose 500),
                          Some (Collaborator ''500 Internal Server Error''))))
     (exampleEnv ''HARNESS_API_KEY'') (createPayload exampleAgent)
     = (zeroAgent, Some (failingToClose 500), Some (Collaborator ''500 Internal Server Error''))
   \<and> outcomeOf (Create (answering (zeroAgent, Some (failingToClose 500),
                                    Some (Collaborator ''500 Internal Server Error'')))
                  exampleEnv (AgentMg exampleAgent)) = Exited"
  by (simp add: Create_def outcomeOf_def deferred_def Let_def answering_def failingToClose_def)

subsection \<open>Update and Delete\<close>

text \<open>
  C8. For any managed resource, Update returns the empty update result and a nil error;
  it leaves the resource as it was and performs no effect at all.
\<close>

theorem Update_noop:
  "Update c mg = (mg, [], Returned (\<lparr>ExternalUpdate.ConnectionDetails = None\<rparr>, None))"
  by (simp add: Update_def)

theorem Update_noop_witness:
  "Update (answering (zeroAgent, None, None)) (AgentMg exampleAgent) =
     (AgentMg exampleAgent, [], Returned (\<lparr>ExternalUpdate.ConnectionDetails = None\<rparr>, None))"
  using Update_noop [of "answering (zeroAgent, None, None)" "AgentMg exampleAgent"]
  by simp

text \<open>
  C4, as the code has it. For any Agent resource, Delete prints the resource, leaves it
  as it was and returns a nil error; and for any managed resource, Agent or not, Delete
  makes no remote call. (For a managed resource that is not an Agent, Delete returns the
  type-mismatch error: see the counterexample.)
\<close>

theorem Delete_agent:
  "Delete c (AgentMg cr) = (AgentMg cr, [FmtPrintf cr], Returned None)
   \<and> filter isRemoteCall (effectsOf (Delete c mg)) = []"
  by (simp add: Delete_def effectsOf_def split: Managed.splits)

theorem Delete_agent_witness:
  "Delete (answering (zeroAgent, None, None)) (AgentMg exampleAgent) =
     (AgentMg exampleAgent, [FmtPrintf exampleAgent], Returned None)
   \<and> filter isRemoteCall
       (effectsOf (Delete (answering (zeroAgent, None, None)) (OtherMg ''ProviderConfig''))) = []"
  using Delete_agent [of "answering (zeroAgent, None, None)" exampleAgent
      "OtherMg ''ProviderConfig''"]
  by simp

theorem Delete_counterexample:
  "outcomeOf (Delete (answering (zeroAgent, None, None)) (OtherMg ''ProviderConfig'')) =
     Returned (Some (ErrorsNew ''managed resource is not a Agent custom resource''))"
  by (simp add: Delete_def outcomeOf_def errNotAgent_def)

subsection \<open>Connect\<close>

text \<open>
  C9. For every Agent resource for which Connect reaches the credential extraction (the
  usage is tracked, the provider configuration reference is set and the configuration is
  found): if the extraction fails, Connect returns no external client and the extraction
  error wrapped with the message "cannot get credentials"; the service constructor is not
  called, and the run is the same whatever the service constructor is.
\<close>

theorem Connect_credentials_fail:
  assumes "usage c (AgentMg cr) = None"
    and "ProviderConfigReference (Agent.Spec cr) = Some ref"
    and "kube c (Reference.Name ref) = Inr pc"
    and "extractor (Source (Credentials (ProviderConfig.Spec pc)))
                   (SecretRef (Credentials (ProviderConfig.Spec pc))) = Inl err"
  shows "snd (Connect c extractor (AgentMg cr)) =
           Returned (None, Some (ErrorsWrap err errGetCreds))
         \<and> (\<forall>data. NewServiceFn data \<notin> set (fst (Connect c extractor (AgentMg cr))))
         \<and> Connect (c\<lparr>newServiceFn := f\<rparr>) extractor (AgentMg cr) =
             Connect c extractor (AgentMg cr)"
  using assms
  by (auto simp: Connect_def Let_def)

theorem Connect_credentials_fail_witness:
  "snd (Connect exampleConnector secretMissing (AgentMg exampleAgent)) =
     Returned (None, Some (ErrorsWrap (Collaborator ''secret not found'')
                                      ''cannot get credentials''))
   \<and> (\<forall>data. NewServiceFn data
               \<notin> set (fst (Connect exampleConnector secretMissing (AgentMg exampleAgent))))"
  using Connect_credentials_fail [of exampleConnector exampleAgent
      "\<lparr>Reference.Name = ''example''\<rparr>" exampleProviderConfig secretMissing
      "Collaborator ''secret not found''"]
  by (simp add: exampleConnector_def exampleAgent_def secretMissing_def errGetCreds_def)

subsection \<open>The desired spec\<close>

text \<open>
  C10. For every Agent resource, the resource as Observe, Create, Update and Delete leave
  it has the spec it had, the ForProvider parameters included, and the metadata it had:
  what the operations change is in the status.
\<close>

theorem spec_never_mutated:
  "(\<exists>cr'. resourceAfter (Observe c getenv (AgentMg cr)) = AgentMg cr'
       \<and> Agent.Spec cr' = Agent.Spec cr \<and> ObjectMeta cr' = ObjectMeta cr)
   \<and> (\<exists>cr'. resourceAfter (Create c getenv (AgentMg cr)) = AgentMg cr'
       \<and> Agent.Spec cr' = Agent.Spec cr \<and> ObjectMeta cr' = ObjectMeta cr)
   \<and> resourceAfter (Update c (AgentMg cr)) = AgentMg cr
   \<and> resourceAfter (Delete c (AgentMg cr)) = AgentMg cr"
proof (intro conjI)
  show "\<exists>cr'. resourceAfter (Observe c getenv (AgentMg cr)) = AgentMg cr'
       \<and> Agent.Spec cr' = Agent.Spec cr \<and> ObjectMeta cr' = ObjectMeta cr"
    by (auto simp: Observe_def resourceAfter_def Let_def split: option.splits prod.splits)
  show "\<exists>cr'. resourceAfter (Create c getenv (AgentMg cr)) = AgentMg cr'
       \<and> Agent.Spec cr' = Agent.Spec cr \<and> ObjectMeta cr' = ObjectMeta cr"
    by (auto simp: Create_def resourceAfter_def Let_def split: option.splits prod.splits)
  show "resourceAfter (Update c (AgentMg cr)) = AgentMg cr"
    by (simp add: Update_def resourceAfter_def)
  show "resourceAfter (Delete c (AgentMg cr)) = AgentMg cr"
    by (simp add: Delete_def resourceAfter_def)
qed

theorem spec_never_mutated_witness:
  "(\<exists>cr'. resourceAfter
             (Observe (answering (agentWithHealth ''HEALTHY'', Some (closingCleanly 200), None))
                exampleEnv (AgentMg exampleAgent)) = AgentMg cr'
       \<and> Agent.Spec cr' = Agent.Spec exampleAgent)
   \<and> (\<exists>cr'. resourceAfter
               (Create (answering (agentWithHealth ''HEALTHY'', Some (closingCleanly 200), None))
                  exampleEnv (AgentMg exampleAgent)) = AgentMg cr'
       \<and> Agent.Spec cr' = Agent.Spec exampleAgent)"
  using spec_never_mutated
      [of "answering (agentWithHealth ''HEALTHY'', Some (closingCleanly 200), None)"
          exampleEnv exampleAgent]
  by blast

subsection \<open>Failures\<close>

lemma Connect_failures:
  "snd (Connect c extractor mg) \<noteq> Exited
   \<and> (snd (Connect c extractor mg) = Returned (cl, Some e) \<longrightarrow> cl = None \<and> contextual e)"
  by (auto simp: Connect_def Let_def split: Managed.splits option.splits sum.splits)


lemma Observe_failures:
  "outcomeOf (Observe c getenv mg) = Returned (obs, Some e) \<longrightarrow>
     (\<exists>kind. mg = OtherMg kind) \<and> e = ErrorsNew errNotAgent"
  by (auto simp: Observe_def outcomeOf_def deferred_def Let_def
           split: Managed.splits option.splits prod.splits if_splits)

lemma Create_failures:
  "outcomeOf (Create c getenv mg) = Returned (res, Some e) \<longrightarrow>
     (\<exists>kind. mg = OtherMg kind) \<and> e = ErrorsNew errNotAgent
     \<or> (\<exists>cr agent response. mg = AgentMg cr
           \<and> AgentServiceForServerCreate (service c) (getenv ''HARNESS_API_KEY'') (createPayload cr)
               = (agent, response, Some e))"
  by (auto simp: Create_def outcomeOf_def deferred_def Let_def
           split: Managed.splits option.splits prod.splits if_splits)

lemma Observe_exits:
  "outcomeOf (Observe c getenv mg) = Exited \<longleftrightarrow>
     (\<exists>cr. mg = AgentMg cr
        \<and> (case AgentParameters.AccountIdentifier (ForProvider (Agent.Spec cr)) of
             None \<Rightarrow> True
           | Some accountIdentifier \<Rightarrow>
               (case AgentServiceForServerGet (service c) (getenv ''HARNESS_API_KEY'')
                       (orEmpty (AgentParameters.Identifier (ForProvider (Agent.Spec cr))))
                       accountIdentifier of
                  (agent, response, err) \<Rightarrow>
                    (case response of None \<Rightarrow> False | Some r \<Rightarrow> Body_Close r \<noteq> None))))"
  by (auto simp: Observe_def outcomeOf_def deferred_def Let_def
           split: Managed.splits option.splits prod.splits if_splits)

lemma Create_exits:
  "outcomeOf (Create c getenv mg) = Exited \<longleftrightarrow>
     (\<exists>cr. mg = AgentMg cr
        \<and> (case AgentServiceForServerCreate (service c) (getenv ''HARNESS_API_KEY'')
                   (createPayload cr) of
             (agent, response, err) \<Rightarrow>
               (case response of None \<Rightarrow> False | Some r \<Rightarrow> Body_Close r \<noteq> None)))"
  by (auto simp: Create_def outcomeOf_def deferred_def Let_def
           split: Managed.splits option.splits prod.splits if_splits)

text \<open>Where a nil pointer is dereferenced.\<close>

lemma Connect_panics:
  "snd (Connect k extractor mg) = Panicked \<longleftrightarrow>
     (\<exists>cr. mg = AgentMg cr \<and> usage k mg = None
        \<and> ProviderConfigReference (Agent.Spec cr) = None)"
  by (auto simp: Connect_def Let_def split: Managed.splits option.splits sum.splits)

lemma Observe_panics:
  "outcomeOf (Observe c getenv mg) = Panicked \<longleftrightarrow>
     (\<exists>cr accountIdentifier agent response.
        mg = AgentMg cr
        \<and> AgentParameters.AccountIdentifier (ForProvider (Agent.Spec cr)) = Some accountIdentifier
        \<and> AgentServiceForServerGet (service c) (getenv ''HARNESS_API_KEY'')
              (orEmpty (AgentParameters.Identifier (ForProvider (Agent.Spec cr))))
              accountIdentifier = (agent, response, None)
        \<and> (\<forall>r. response = Some r \<longrightarrow> StatusCode r \<noteq> 404 \<and> Body_Close r = None)
        \<and> healthStatus agent = None)"
  by (auto simp: Observe_def outcomeOf_def deferred_def Let_def
           split: Managed.splits option.splits prod.splits if_splits)

lemma Create_panics:
  "outcomeOf (Create c getenv mg) = Panicked \<longleftrightarrow>
     (\<exists>cr agent response.
        mg = AgentMg cr
        \<and> AgentServiceForServerCreate (service c) (getenv ''HARNESS_API_KEY'')
              (createPayload cr) = (agent, response, None)
        \<and> (\<forall>r. response = Some r \<longrightarrow> Body_Close r = None)
        \<and> healthStatus agent = None)"
  by (auto simp: Create_def outcomeOf_def deferred_def Let_def
           split: Managed.splits option.splits prod.splits if_splits)









end
